theory Spec2Isabelle
  imports Complex_Main
begin

section \<open>Python strings\<close>

text \<open>
  A Python \<open>str\<close> is modelled as a \<open>string\<close>, one \<open>char\<close> per character: the chars
  are the code points below 256. On these, \<open>is_space\<close> is \<open>str.isspace\<close> (the characters
  that \<open>str.strip\<close> removes), \<open>is_digit\<close> is the class \<open>\d\<close> of \<open>re\<close> and \<open>is_word\<close>
  its class \<open>\w\<close>, which has the letters and numeric characters beyond ASCII too.
\<close>

definition newline :: char where
  "newline = CHR 0x0A"

definition is_space :: "char \<Rightarrow> bool" where
  "is_space c = (c \<in> set [CHR 0x09, CHR 0x0A, CHR 0x0B, CHR 0x0C, CHR 0x0D,
                            CHR 0x1C, CHR 0x1D, CHR 0x1E, CHR 0x1F, CHR 0x20,
                            CHR 0x85, CHR 0xA0])"

definition is_digit :: "char \<Rightarrow> bool" where
  "is_digit c = (c \<in> set ''0123456789'')"

definition is_word :: "char \<Rightarrow> bool" where
  "is_word c =
     (let n = (of_char c :: nat) in
      (0x30 \<le> n \<and> n \<le> 0x39) \<or> (0x41 \<le> n \<and> n \<le> 0x5A) \<or> n = 0x5F \<or>
      (0x61 \<le> n \<and> n \<le> 0x7A) \<or>
      n = 0xAA \<or> n = 0xB2 \<or> n = 0xB3 \<or> n = 0xB5 \<or> n = 0xB9 \<or> n = 0xBA \<or>
      (0xBC \<le> n \<and> n \<le> 0xBE) \<or> (0xC0 \<le> n \<and> n \<le> 0xD6) \<or>
      (0xD8 \<le> n \<and> n \<le> 0xF6) \<or> 0xF8 \<le> n)"

text \<open>\<open>s.strip()\<close>\<close>

definition strip :: "string \<Rightarrow> string" where
  "strip s = rev (dropWhile is_space (rev (dropWhile is_space s)))"

text \<open>\<open>s.startswith(p)\<close>\<close>

fun starts_with :: "string \<Rightarrow> string \<Rightarrow> bool" where
  "starts_with s [] = True"
| "starts_with [] (p # ps) = False"
| "starts_with (c # cs) (p # ps) = (c = p \<and> starts_with cs ps)"

text \<open>\<open>sub in s\<close>\<close>

fun str_contains :: "string \<Rightarrow> string \<Rightarrow> bool" where
  "str_contains [] sub = (sub = [])"
| "str_contains (c # cs) sub = (starts_with (c # cs) sub \<or> str_contains cs sub)"

text \<open>\<open>s.split('\n')\<close>: never the empty list, \<open>''.split('\n') == ['']\<close>.\<close>

fun split_newline :: "string \<Rightarrow> string list" where
  "split_newline [] = [[]]"
| "split_newline (c # cs) =
     (if c = newline then [] # split_newline cs
      else (case split_newline cs of
              [] \<Rightarrow> [[c]]
            | l # ls \<Rightarrow> (c # l) # ls))"

text \<open>\<open>'\n'.join(ls)\<close>\<close>

fun join_newline :: "string list \<Rightarrow> string" where
  "join_newline [] = []"
| "join_newline [l] = l"
| "join_newline (l # m # ls) = l @ newline # join_newline (m # ls)"

text \<open>\<open>s.replace(old, '')\<close> for a non-empty \<open>old\<close>: every occurrence, left to right.\<close>

function remove_all :: "string \<Rightarrow> string \<Rightarrow> string" where
  "remove_all old [] = []"
| "remove_all old (c # cs) =
     (if old \<noteq> [] \<and> starts_with (c # cs) old
      then remove_all old (drop (length old) (c # cs))
      else c # remove_all old cs)"
  by pat_completeness auto
termination
  by (relation "measure (\<lambda>(old, s). length s)") auto

text \<open>\<open>str(n)\<close> for a non-negative integer, as \<open>'{}'.format(n)\<close> prints it.\<close>

fun str_of_nat :: "nat \<Rightarrow> string" where
  "str_of_nat n =
     (if n < 10 then [''0123456789'' ! n]
      else str_of_nat (n div 10) @ [''0123456789'' ! (n mod 10)])"

text \<open>\<open>str(i)\<close> for an integer.\<close>

definition str_of_int :: "int \<Rightarrow> string" where
  "str_of_int i = (if i < 0 then ''-'' @ str_of_nat (nat (- i)) else str_of_nat (nat i))"

section \<open>The collaborators of the Agent\<close>

text \<open>
  Exceptions are values. \<open>exn\<close> stands for the instances of Python's \<open>Exception\<close>, the
  class that the handler of \<open>Agent.run\<close> names.
\<close>

datatype exn = KeyError string | TypeError | Raised string

text \<open>
  The Agent talks to a Sandbox and to an LLM client. Every call on either is logged as an
  \<open>event\<close>; the log is kept newest first. A timeout is \<open>None\<close> where the call leaves the
  parameter to its default. The sampling temperature is given in tenths (\<open>3\<close> for
  \<open>0.3\<close>).
\<close>

datatype event =
    Start
  | Cleanup
  | RunCommand string "nat option"
  | ReadFile string
  | WriteFile string string
  | GetCompletion string string nat "nat option"

text \<open>
  The source of \<open>Sandbox\<close>, \<open>LLMClient\<close> and \<open>sudodev.core.tools\<close> is not part of the
  sources at hand, so their behaviour is a parameter of the model. A Sandbox or LLM call
  answers as a function of the calls made before it and of its arguments, and may raise.
  The text tools of \<open>sudodev.core.tools\<close> are functions of their arguments and are
  taken not to raise.

  \<open>build_locate_files_prompt\<close> is imported inside \<open>_locate_files\<close>, from the module
  \<open>sudodev.tools\<close>: the field is \<open>Inl\<close> when that import raises.

  \<open>Sandbox.cleanup\<close> is not among these fields: see \<open>cleanup\<close> below.
\<close>

record collab =
  sandbox_start :: "event list \<Rightarrow> exn option"
  sandbox_run_command :: "event list \<Rightarrow> string \<Rightarrow> nat option \<Rightarrow> exn + (int \<times> string)"
  sandbox_read_file :: "event list \<Rightarrow> string \<Rightarrow> exn + string option"
  sandbox_write_file :: "event list \<Rightarrow> string \<Rightarrow> string \<Rightarrow> exn option"
  llm_get_completion :: "event list \<Rightarrow> string \<Rightarrow> string \<Rightarrow> nat \<Rightarrow> nat option \<Rightarrow> exn + string"
  build_reproduce_prompt :: "string \<Rightarrow> string \<Rightarrow> string"
  build_fix_prompt :: "string \<Rightarrow> string \<Rightarrow> string \<Rightarrow> string \<Rightarrow> string"
  build_locate_files_prompt :: "exn + (string \<Rightarrow> string \<Rightarrow> string)"
  extract_python_code :: "string \<Rightarrow> string"
  extract_file_paths :: "string \<Rightarrow> string list"
  validate_python_code :: "string \<Rightarrow> bool \<times> string"
  extract_error_messages :: "string \<Rightarrow> string list"

section \<open>The Agent\<close>

definition SYSTEM_PROMPT :: string where
  "SYSTEM_PROMPT =
     ''You are SudoDev, an Senior software engineer.'' @ [newline] @
     ''You are running inside a Linux environment with the repository checked out at /testbed.'' @ [newline] @
     [newline] @
     ''YOUR PROCESS:'' @ [newline] @
     ''1. You will be given a GitHub Issue.'' @ [newline] @
     ''2. You must first create a reproduction script named `reproduce_issue.py` that fails when the bug is present.'' @ [newline] @
     ''3. You will then modify the source code to fix the bug by providing the COMPLETE fixed file content.'' @ [newline]"

text \<open>
  The fields of an \<open>Agent\<close>; \<open>issue\<close> is the dictionary passed to the constructor.
  \<open>calls\<close> is the log of the calls made so far on \<open>self.sandbox\<close> and \<open>self.llm\<close>,
  newest first.
\<close>

record agent =
  issue :: "string \<rightharpoonup> string"
  repro_script :: string
  repro_output :: string
  target_files :: "string list"
  calls :: "event list"

text \<open>
  \<open>Agent.__init__\<close>: \<open>new_agent\<close> is the object with the fields as the constructor sets
  them; \<open>issue_data['instance_id']\<close> raises \<open>KeyError\<close> when the key is absent.
\<close>

definition new_agent :: "(string \<rightharpoonup> string) \<Rightarrow> agent" where
  "new_agent issue_data =
     \<lparr>issue = issue_data, repro_script = ''reproduce_issue.py'', repro_output = [],
      target_files = [], calls = []\<rparr>"

definition Agent_init :: "(string \<rightharpoonup> string) \<Rightarrow> exn + agent" where
  "Agent_init issue_data =
     (case issue_data ''instance_id'' of
        None \<Rightarrow> Inl (KeyError ''instance_id'')
      | Some _ \<Rightarrow> Inr (new_agent issue_data))"

subsection \<open>Calls on the collaborators\<close>

definition start :: "collab \<Rightarrow> agent \<Rightarrow> (exn + unit) \<times> agent" where
  "start env ag =
     (case sandbox_start env (calls ag) of
        Some e \<Rightarrow> (Inl e, ag\<lparr>calls := Start # calls ag\<rparr>)
      | None \<Rightarrow> (Inr (), ag\<lparr>calls := Start # calls ag\<rparr>))"

text \<open>
  Modelled from the spec: \<open>Sandbox.cleanup\<close>, whose source is missing. The spec's
  contract for it is that it "must be safe to call multiple times and must never itself
  throw past the Agent's teardown path"; so the call is logged and returns, with no
  exception.
\<close>

definition cleanup :: "collab \<Rightarrow> agent \<Rightarrow> agent" where
  "cleanup env ag = ag\<lparr>calls := Cleanup # calls ag\<rparr>"

definition run_command ::
  "collab \<Rightarrow> string \<Rightarrow> nat option \<Rightarrow> agent \<Rightarrow> (exn + (int \<times> string)) \<times> agent" where
  "run_command env cmd timeout ag =
     (sandbox_run_command env (calls ag) cmd timeout,
      ag\<lparr>calls := RunCommand cmd timeout # calls ag\<rparr>)"

definition read_file :: "collab \<Rightarrow> string \<Rightarrow> agent \<Rightarrow> (exn + string option) \<times> agent" where
  "read_file env path ag =
     (sandbox_read_file env (calls ag) path, ag\<lparr>calls := ReadFile path # calls ag\<rparr>)"

definition write_file :: "collab \<Rightarrow> string \<Rightarrow> string \<Rightarrow> agent \<Rightarrow> (exn + unit) \<times> agent" where
  "write_file env path content ag =
     (case sandbox_write_file env (calls ag) path content of
        Some e \<Rightarrow> (Inl e, ag\<lparr>calls := WriteFile path content # calls ag\<rparr>)
      | None \<Rightarrow> (Inr (), ag\<lparr>calls := WriteFile path content # calls ag\<rparr>))"

definition get_completion ::
  "collab \<Rightarrow> string \<Rightarrow> string \<Rightarrow> nat \<Rightarrow> nat option \<Rightarrow> agent \<Rightarrow> (exn + string) \<times> agent" where
  "get_completion env system_prompt user_prompt temperature max_tokens ag =
     (llm_get_completion env (calls ag) system_prompt user_prompt temperature max_tokens,
      ag\<lparr>calls := GetCompletion system_prompt user_prompt temperature max_tokens # calls ag\<rparr>)"

text \<open>\<open>self.issue['problem_statement']\<close>\<close>

definition problem_statement :: "agent \<Rightarrow> exn + string" where
  "problem_statement ag =
     (case issue ag ''problem_statement'' of
        None \<Rightarrow> Inl (KeyError ''problem_statement'')
      | Some s \<Rightarrow> Inr s)"

subsection \<open>The phases\<close>

text \<open>Logging and printing change nothing that the Agent reads and are left out.\<close>

definition find_command :: "nat \<Rightarrow> string" where
  "find_command max_files =
     ''find /testbed -type f -name '' @ [CHR 0x27] @ ''*.py'' @ [CHR 0x27] @ '' '' @
     ''! -path '' @ [CHR 0x27] @ ''*/.git/*'' @ [CHR 0x27] @ '' '' @
     ''! -path '' @ [CHR 0x27] @ ''*/__pycache__/*'' @ [CHR 0x27] @ '' '' @
     ''! -path '' @ [CHR 0x27] @ ''*/venv/*'' @ [CHR 0x27] @ '' '' @
     ''! -path '' @ [CHR 0x27] @ ''*/env/*'' @ [CHR 0x27] @ '' '' @
     ''! -name '' @ [CHR 0x27] @ ''*.pyc'' @ [CHR 0x27] @ '' '' @
     ''| head -n '' @ str_of_nat max_files @ '' '' @
     ''| sort''"

definition get_file_tree :: "collab \<Rightarrow> nat \<Rightarrow> agent \<Rightarrow> (exn + string) \<times> agent" where
  "get_file_tree env max_files ag =
     (case run_command env (find_command max_files) None ag of
        (Inl e, ag1) \<Rightarrow> (Inl e, ag1)
      | (Inr (exit_code, output), ag1) \<Rightarrow>
          if exit_code = 0
          then (Inr (join_newline
                       (map (remove_all ''/testbed/'')
                            (filter (\<lambda>line. strip line \<noteq> []) (split_newline (strip output))))),
                ag1)
          else (Inr ''Error getting file list'', ag1))"

definition reproduce_bug :: "collab \<Rightarrow> agent \<Rightarrow> (exn + bool) \<times> agent" where
  "reproduce_bug env ag =
     (case get_file_tree env 100 ag of
        (Inl e, ag1) \<Rightarrow> (Inl e, ag1)
      | (Inr file_list, ag1) \<Rightarrow>
     (case problem_statement ag1 of
        Inl e \<Rightarrow> (Inl e, ag1)
      | Inr issue_desc \<Rightarrow>
     (case get_completion env SYSTEM_PROMPT
             (build_reproduce_prompt env issue_desc
                (''Repository files (sample):'' @ [newline] @ take 1000 file_list))
             3 None ag1 of
        (Inl e, ag2) \<Rightarrow> (Inl e, ag2)
      | (Inr response, ag2) \<Rightarrow>
     (let code = extract_python_code env response in
      if \<not> fst (validate_python_code env code) then (Inr False, ag2)
      else
     (case write_file env (repro_script ag2) code ag2 of
        (Inl e, ag3) \<Rightarrow> (Inl e, ag3)
      | (Inr _, ag3) \<Rightarrow>
     (case run_command env (''python '' @ repro_script ag3) (Some 30) ag3 of
        (Inl e, ag4) \<Rightarrow> (Inl e, ag4)
      | (Inr (exit_code, output), ag4) \<Rightarrow>
          if exit_code \<noteq> 0 then (Inr True, ag4\<lparr>repro_output := output\<rparr>)
          else if extract_error_messages env output \<noteq> []
               then (Inr True, ag4\<lparr>repro_output := output\<rparr>)
               else (Inr False, ag4)))))))"

definition locate_files :: "collab \<Rightarrow> agent \<Rightarrow> (exn + bool) \<times> agent" where
  "locate_files env ag =
     (case problem_statement ag of
        Inl e \<Rightarrow> (Inl e, ag)
      | Inr issue_text \<Rightarrow>
     (let potential_files = extract_file_paths env issue_text in
      if potential_files \<noteq> [] then (Inr True, ag\<lparr>target_files := potential_files\<rparr>)
      else
     (case get_file_tree env 150 ag of
        (Inl e, ag1) \<Rightarrow> (Inl e, ag1)
      | (Inr file_tree, ag1) \<Rightarrow>
     (case build_locate_files_prompt env of
        Inl e \<Rightarrow> (Inl e, ag1)
      | Inr build_prompt \<Rightarrow>
     (case problem_statement ag1 of
        Inl e \<Rightarrow> (Inl e, ag1)
      | Inr issue_text' \<Rightarrow>
     (case get_completion env SYSTEM_PROMPT (build_prompt issue_text' file_tree) 2 None ag1 of
        (Inl e, ag2) \<Rightarrow> (Inl e, ag2)
      | (Inr response, ag2) \<Rightarrow>
     (let files = extract_file_paths env response in
      if files \<noteq> [] then (Inr True, ag2\<lparr>target_files := take 3 files\<rparr>)
      else (Inr False, ag2))))))))"

text \<open>
  The body of the loop of \<open>_generate_fix\<close> for one \<open>filepath\<close>: the result is \<open>True\<close>
  where the body reaches \<open>fixed_any = True\<close> and \<open>False\<close> where it leaves through a
  \<open>continue\<close>. The diff of \<open>create_diff_patch\<close> is only printed and is left out.
\<close>

definition MAX_FILE_CHARS :: nat where
  "MAX_FILE_CHARS = 32000"

definition fix_file :: "collab \<Rightarrow> string \<Rightarrow> agent \<Rightarrow> (exn + bool) \<times> agent" where
  "fix_file env filepath ag =
     (case read_file env filepath ag of
        (Inl e, ag1) \<Rightarrow> (Inl e, ag1)
      | (Inr None, ag1) \<Rightarrow> (Inr False, ag1)
      | (Inr (Some original_content), ag1) \<Rightarrow>
          if original_content = [] then (Inr False, ag1)
          else if length original_content > MAX_FILE_CHARS then (Inr False, ag1)
          else
     (case problem_statement ag1 of
        Inl e \<Rightarrow> (Inl e, ag1)
      | Inr issue_text \<Rightarrow>
     (case get_completion env SYSTEM_PROMPT
             (build_fix_prompt env issue_text original_content filepath (repro_output ag1))
             2 (Some 8192) ag1 of
        (Inl e, ag2) \<Rightarrow> (Inl e, ag2)
      | (Inr response, ag2) \<Rightarrow>
     (let fixed_code = extract_python_code env response in
      if fixed_code = [] then (Inr False, ag2)
      else if \<not> fst (validate_python_code env fixed_code) then (Inr False, ag2)
      else if strip fixed_code = strip original_content then (Inr False, ag2)
      else
     (case write_file env filepath fixed_code ag2 of
        (Inl e, ag3) \<Rightarrow> (Inl e, ag3)
      | (Inr _, ag3) \<Rightarrow> (Inr True, ag3))))))"

text \<open>The loop over the files still to process, \<open>fixed_any\<close> carried along.\<close>

fun generate_fix_loop :: "collab \<Rightarrow> string list \<Rightarrow> bool \<Rightarrow> agent \<Rightarrow> (exn + bool) \<times> agent" where
  "generate_fix_loop env [] fixed_any ag = (Inr fixed_any, ag)"
| "generate_fix_loop env (filepath # rest) fixed_any ag =
     (case fix_file env filepath ag of
        (Inl e, ag1) \<Rightarrow> (Inl e, ag1)
      | (Inr fixed, ag1) \<Rightarrow> generate_fix_loop env rest (fixed_any \<or> fixed) ag1)"

definition generate_fix :: "collab \<Rightarrow> agent \<Rightarrow> (exn + bool) \<times> agent" where
  "generate_fix env ag = generate_fix_loop env (target_files ag) False ag"

definition verify_fix :: "collab \<Rightarrow> agent \<Rightarrow> (exn + bool) \<times> agent" where
  "verify_fix env ag =
     (case run_command env (''python '' @ repro_script ag) (Some 30) ag of
        (Inl e, ag1) \<Rightarrow> (Inl e, ag1)
      | (Inr (exit_code, output), ag1) \<Rightarrow>
          if exit_code = 0
          then (if extract_error_messages env output = [] then (Inr True, ag1)
                else (Inr False, ag1))
          else (Inr False, ag1))"

subsection \<open>\<open>Agent.run\<close>\<close>

text \<open>The body of the \<open>try\<close> block.\<close>

definition run_try :: "collab \<Rightarrow> agent \<Rightarrow> (exn + bool) \<times> agent" where
  "run_try env ag =
     (case start env ag of
        (Inl e, ag1) \<Rightarrow> (Inl e, ag1)
      | (Inr _, ag1) \<Rightarrow>
     (case reproduce_bug env ag1 of
        (Inl e, ag2) \<Rightarrow> (Inl e, ag2)
      | (Inr reproduced, ag2) \<Rightarrow>
          if \<not> reproduced then (Inr False, ag2)
          else
     (case locate_files env ag2 of
        (Inl e, ag3) \<Rightarrow> (Inl e, ag3)
      | (Inr located, ag3) \<Rightarrow>
          if \<not> located then (Inr False, ag3)
          else
     (case generate_fix env ag3 of
        (Inl e, ag4) \<Rightarrow> (Inl e, ag4)
      | (Inr fixed, ag4) \<Rightarrow>
          if \<not> fixed then (Inr False, ag4)
          else verify_fix env ag4))))"

text \<open>
  \<open>run\<close>: the f-string of the first line reads \<open>self.issue['instance_id']\<close> before the
  \<open>try\<close>; \<open>except Exception\<close> turns an exception of the body into \<open>False\<close>; the
  \<open>finally\<close> clause runs \<open>cleanup\<close> last, whatever the body did.
\<close>

definition run :: "collab \<Rightarrow> agent \<Rightarrow> (exn + bool) \<times> agent" where
  "run env ag =
     (case issue ag ''instance_id'' of
        None \<Rightarrow> (Inl (KeyError ''instance_id''), ag)
      | Some _ \<Rightarrow>
     (case run_try env ag of
        (Inl e, ag1) \<Rightarrow> (Inr False, cleanup env ag1)
      | (Inr result, ag1) \<Rightarrow> (Inr result, cleanup env ag1)))"

section \<open>The FeedbackLoop\<close>

subsection \<open>The regular expressions of \<open>analyze_errors\<close>\<close>

text \<open>
  \<open>re.search(pattern, s)\<close> tries the pattern at every start position of \<open>s\<close>, from the
  left, and returns the first match. \<open>re_search m s\<close> does so for a matcher \<open>m\<close> that
  matches its pattern at the head of a string.
\<close>

fun re_search :: "(string \<Rightarrow> 'a option) \<Rightarrow> string \<Rightarrow> 'a option" where
  "re_search m [] = m []"
| "re_search m (c # cs) = (case m (c # cs) of Some r \<Rightarrow> Some r | None \<Rightarrow> re_search m cs)"

text \<open>
  \<open>(.+)\<close> at the head of \<open>s\<close>: \<open>.\<close> is any character but the newline, and the
  greedy \<open>+\<close> runs to the end of the line; at least one character is needed.
\<close>

definition dot_plus :: "string \<Rightarrow> string option" where
  "dot_plus s =
     (case s of
        [] \<Rightarrow> None
      | c # _ \<Rightarrow> if c = newline then None else Some (takeWhile (\<lambda>c. c \<noteq> newline) s))"

text \<open>
  \<open>(\w+Error): (.+)\<close> at the head of \<open>s\<close>. The colon after \<open>Error\<close> is not a word
  character, so \<open>\w+Error\<close> can only be the whole run of word characters at the head:
  the run is longer than \<open>Error\<close> and ends with it. The result is group 1 and group 2.
\<close>

definition match_exception :: "string \<Rightarrow> (string \<times> string) option" where
  "match_exception s =
     (let w = takeWhile is_word s; rest = dropWhile is_word s in
      if 5 < length w \<and> drop (length w - 5) w = ''Error'' \<and> starts_with rest '': ''
      then (case dot_plus (drop 2 rest) of
              None \<Rightarrow> None
            | Some msg \<Rightarrow> Some (w, msg))
      else None)"

text \<open>A literal followed by \<open>(.+)\<close>, for \<open>AssertionError: (.+)\<close> and \<open>FAILED (.+)\<close>.\<close>

definition match_literal_dot_plus :: "string \<Rightarrow> string \<Rightarrow> string option" where
  "match_literal_dot_plus lit s =
     (if starts_with s lit then dot_plus (drop (length lit) s) else None)"

text \<open>\<open>line (\d+)\<close> at the head of \<open>s\<close>: the result is the greedy run of digits.\<close>

definition match_line :: "string \<Rightarrow> string option" where
  "match_line s =
     (if starts_with s ''line ''
      then (case takeWhile is_digit (drop 5 s) of
              [] \<Rightarrow> None
            | d # ds \<Rightarrow> Some (d # ds))
      else None)"

text \<open>\<open>int(ds)\<close> for a non-empty string of decimal digits.\<close>

definition digit_value :: "char \<Rightarrow> int" where
  "digit_value c = int (length (takeWhile (\<lambda>d. d \<noteq> c) ''0123456789''))"

definition int_of_digits :: "string \<Rightarrow> int" where
  "int_of_digits ds = foldl (\<lambda>n c. 10 * n + digit_value c) 0 ds"

subsection \<open>State\<close>

text \<open>
  One entry of \<open>attempts_history\<close>. \<open>timestamp\<close> is the reading of \<open>time.time()\<close>,
  which \<open>add_attempt\<close> takes as an argument here.
\<close>

record attempt_record =
  attempt :: int
  file_path :: string
  code_applied :: string
  error_output :: string
  success :: bool
  timestamp :: real

record feedback_loop =
  max_attempts :: int
  attempts_history :: "attempt_record list"

definition FeedbackLoop_init :: "int \<Rightarrow> feedback_loop" where
  "FeedbackLoop_init n = \<lparr>max_attempts = n, attempts_history = []\<rparr>"

text \<open>The default of the constructor's parameter.\<close>

definition default_max_attempts :: int where
  "default_max_attempts = 3"

text \<open>The dictionary that \<open>analyze_errors\<close> returns.\<close>

record analysis =
  error_type :: "string option"
  error_message :: "string option"
  failed_line :: "int option"
  suggestions :: "string list"

subsection \<open>Methods\<close>

definition add_attempt ::
  "feedback_loop \<Rightarrow> int \<Rightarrow> string \<Rightarrow> string \<Rightarrow> string \<Rightarrow> bool \<Rightarrow> real \<Rightarrow> feedback_loop" where
  "add_attempt fl attempt_num path code err ok now =
     fl\<lparr>attempts_history := attempts_history fl @
          [\<lparr>attempt = attempt_num, file_path = path, code_applied = take 500 code,
            error_output = err, success = ok, timestamp = now\<rparr>]\<rparr>"

definition should_retry :: "feedback_loop \<Rightarrow> int \<Rightarrow> bool" where
  "should_retry fl current_attempt = (current_attempt < max_attempts fl)"

definition same_error_suggestion :: string where
  "same_error_suggestion = ''CRITICAL: Same error repeating - try a different approach''"

text \<open>
  \<open>_generate_suggestions\<close>, in two steps: the \<open>if\<close>/\<open>elif\<close> chain over the error
  type, then the check against the last recorded attempt. \<open>'Django' in None\<close> and
  \<open>None in last_error\<close> raise \<open>TypeError\<close>.
\<close>

definition kind_suggestions :: "analysis \<Rightarrow> exn + string list" where
  "kind_suggestions a =
     (if error_type a = Some ''NameError''
        then Inr [''Check for undefined variables or missing imports'']
      else if error_type a = Some ''AttributeError''
        then Inr [''Verify object has the expected attributes/methods'']
      else if error_type a = Some ''TypeError''
        then Inr [''Check function arguments and type compatibility'']
      else if error_type a = Some ''ImportError'' \<or> error_type a = Some ''ModuleNotFoundError''
        then Inr [''Verify import paths and module availability'']
      else if error_type a = Some ''SyntaxError''
        then Inr [''Review code syntax and indentation'']
      else if error_type a = Some ''AssertionError''
        then Inr [''The fix didn'' @ [CHR 0x27] @ ''t achieve expected behavior - review logic'']
      else (case error_message a of
              None \<Rightarrow> Inl TypeError
            | Some msg \<Rightarrow>
                if str_contains msg ''Django''
                then Inr [''Ensure Django settings are properly configured'']
                else Inr []))"

definition generate_suggestions :: "feedback_loop \<Rightarrow> analysis \<Rightarrow> exn + string list" where
  "generate_suggestions fl a =
     (case kind_suggestions a of
        Inl e \<Rightarrow> Inl e
      | Inr sugg \<Rightarrow>
          if length (attempts_history fl) > 1
          then (let last_error = error_output (last (attempts_history fl)) in
                case error_type a of
                  None \<Rightarrow> Inl TypeError
                | Some t \<Rightarrow>
                    if str_contains last_error t then Inr (sugg @ [same_error_suggestion])
                    else Inr sugg)
          else Inr sugg)"

text \<open>The loop of \<open>analyze_errors\<close> over \<open>error_patterns\<close>: the first pattern that matches.\<close>

definition first_error :: "string \<Rightarrow> (string \<times> string) option" where
  "first_error err =
     (case re_search match_exception err of
        Some (t, msg) \<Rightarrow> Some (t, msg)
      | None \<Rightarrow>
     (case re_search (match_literal_dot_plus ''AssertionError: '') err of
        Some msg \<Rightarrow> Some (''AssertionError'', msg)
      | None \<Rightarrow>
     (case re_search (match_literal_dot_plus ''FAILED '') err of
        Some msg \<Rightarrow> Some (''TestFailure'', msg)
      | None \<Rightarrow> None)))"

definition analyze_errors :: "feedback_loop \<Rightarrow> string \<Rightarrow> exn + analysis" where
  "analyze_errors fl err =
     (let a0 = \<lparr>error_type = None, error_message = None, failed_line = None, suggestions = []\<rparr>;
          a1 = (case first_error err of
                  None \<Rightarrow> a0
                | Some (t, msg) \<Rightarrow> a0\<lparr>error_type := Some t, error_message := Some msg\<rparr>);
          a2 = (case re_search match_line err of
                  None \<Rightarrow> a1
                | Some ds \<Rightarrow> a1\<lparr>failed_line := Some (int_of_digits ds)\<rparr>)
      in if error_type a2 \<noteq> None \<and> error_type a2 \<noteq> Some []
         then (case generate_suggestions fl a2 of
                 Inl e \<Rightarrow> Inl e
               | Inr sugg \<Rightarrow> Inr (a2\<lparr>suggestions := sugg\<rparr>))
         else Inr a2)"

text \<open>
  \<open>build_retry_prompt\<close>. \<open>unlines\<close> ends every line with a newline, as the lines of
  the triple-quoted literals end. \<open>x or 'Unknown'\<close> takes the default for \<open>None\<close> and
  for the empty string; \<open>if analysis['failed_line']\<close> is false for \<open>None\<close> and for
  \<open>0\<close>.
\<close>

definition unlines :: "string list \<Rightarrow> string" where
  "unlines ls = concat (map (\<lambda>l. l @ [newline]) ls)"

definition or_default :: "string option \<Rightarrow> string \<Rightarrow> string" where
  "or_default x d = (case x of None \<Rightarrow> d | Some s \<Rightarrow> if s = [] then d else s)"

definition build_retry_prompt ::
  "feedback_loop \<Rightarrow> string \<Rightarrow> string \<Rightarrow> string \<Rightarrow> string \<Rightarrow> exn + string" where
  "build_retry_prompt fl original_issue file_content path current_error =
     (case analyze_errors fl current_error of
        Inl e \<Rightarrow> Inl e
      | Inr a \<Rightarrow>
          Inr (unlines
                 [''You are debugging a fix that FAILED. Learn from the error and try a different approach.'',
                  [],
                  ''Original Issue:'',
                  take 1000 original_issue,
                  [],
                  ''File: '' @ path,
                  [],
                  ''Current Code (that failed):'',
                  ''```python'',
                  take 10000 file_content,
                  ''```'',
                  [],
                  ''VERIFICATION FAILED with this error:'',
                  ''```'',
                  drop (length current_error - 1500) current_error,
                  ''```'',
                  [],
                  ''Error Analysis:'',
                  ''- Type: '' @ or_default (error_type a) ''Unknown'',
                  ''- Message: '' @ or_default (error_message a) ''See above'']
               @ (case failed_line a of
                    None \<Rightarrow> []
                  | Some n \<Rightarrow> if n = 0 then [] else unlines [''- Failed at line: '' @ str_of_int n])
               @ (if suggestions a = [] then []
                  else unlines ([] # ''Suggestions:'' # map (\<lambda>sg. ''- '' @ sg) (suggestions a)))
               @ (if length (attempts_history fl) > 0
                  then unlines
                         ([] #
                          (''**Previous Attempts**: '' @ str_of_nat (length (attempts_history fl))
                             @ '' failed'') #
                          map (\<lambda>r. ''  Attempt '' @ str_of_int (attempt r) @ '': ''
                                      @ last (split_newline (take 200 (error_output r))))
                              (drop (length (attempts_history fl) - 2) (attempts_history fl)))
                  else [])
               @ unlines
                   [[],
                    ''Your Task:'',
                    ''1. Carefully review the error and understand why the previous fix failed'',
                    ''2. Think about what needs to change differently'',
                    ''3. Provide a COMPLETE fixed version of the file'',
                    [],
                    ''**IMPORTANT:**'',
                    ''- Do NOT repeat the same fix that just failed'',
                    ''- Try a fundamentally different approach if needed'',
                    ''- Ensure all syntax is correct'',
                    ''- Provide the ENTIRE file content'',
                    [],
                    ''Output Format:'',
                    ''First explain what you'' @ [CHR 0x27] @
                      ''re changing differently this time (3-4 sentences).'',
                    [],
                    ''Then provide the complete fixed code in a ```python block.'']))"

text \<open>
  \<open>get_summary\<close>. The two status marks are U+2713 and U+2717, outside ASCII; they
  stand here as their UTF-8 bytes.
\<close>

definition check_mark :: string where
  "check_mark = [CHR 0xE2, CHR 0x9C, CHR 0x93]"

definition cross_mark :: string where
  "cross_mark = [CHR 0xE2, CHR 0x9C, CHR 0x97]"

definition get_summary :: "feedback_loop \<Rightarrow> string" where
  "get_summary fl =
     (if attempts_history fl = [] then ''No attempts made yet''
      else unlines
             ((''Total attempts: '' @ str_of_nat (length (attempts_history fl))) #
              map (\<lambda>r. (if success r then check_mark else cross_mark) @ '' Attempt ''
                          @ str_of_int (attempt r) @ '': '' @ file_path r)
                  (attempts_history fl)))"

subsection \<open>Sequences of method calls\<close>

text \<open>
  A call of a public method of a \<open>FeedbackLoop\<close>, with what it returns and the object
  after it. Only \<open>add_attempt\<close> assigns to a field of \<open>self\<close>.
\<close>

datatype fl_call =
    AddAttempt int string string string bool real
  | ShouldRetry int
  | AnalyzeErrors string
  | BuildRetryPrompt string string string string
  | GetSummary

datatype fl_result =
    NoResult
  | BoolResult bool
  | AnalysisResult "exn + analysis"
  | PromptResult "exn + string"
  | TextResult string

fun method_call :: "fl_call \<Rightarrow> feedback_loop \<Rightarrow> fl_result \<times> feedback_loop" where
  "method_call (AddAttempt n path code err ok now) fl =
     (NoResult, add_attempt fl n path code err ok now)"
| "method_call (ShouldRetry n) fl = (BoolResult (should_retry fl n), fl)"
| "method_call (AnalyzeErrors err) fl = (AnalysisResult (analyze_errors fl err), fl)"
| "method_call (BuildRetryPrompt original_issue file_content path current_error) fl =
     (PromptResult (build_retry_prompt fl original_issue file_content path current_error), fl)"
| "method_call GetSummary fl = (TextResult (get_summary fl), fl)"

fun method_calls :: "fl_call list \<Rightarrow> feedback_loop \<Rightarrow> feedback_loop" where
  "method_calls [] fl = fl"
| "method_calls (c # cs) fl = method_calls cs (snd (method_call c fl))"

text \<open>The number of attempt records stored for a file path.\<close>

definition records_for :: "string \<Rightarrow> feedback_loop \<Rightarrow> nat" where
  "records_for path fl = length (filter (\<lambda>r. file_path r = path) (attempts_history fl))"

text \<open>The number of \<open>add_attempt\<close> calls for a file path in a sequence of calls.\<close>

fun adds_for :: "string \<Rightarrow> fl_call list \<Rightarrow> nat" where
  "adds_for path [] = 0"
| "adds_for path (AddAttempt n p code err ok now # cs) =
     (if p = path then Suc (adds_for path cs) else adds_for path cs)"
| "adds_for path (_ # cs) = adds_for path cs"

section \<open>Reading the log of calls\<close>

text \<open>The calls made between an earlier state of the Agent and a later one, newest first.\<close>

definition new_calls :: "agent \<Rightarrow> agent \<Rightarrow> event list" where
  "new_calls ag ag' = take (length (calls ag') - length (calls ag)) (calls ag')"

text \<open>The paths read and the files written in a log.\<close>

fun read_paths :: "event list \<Rightarrow> string list" where
  "read_paths [] = []"
| "read_paths (ReadFile p # es) = p # read_paths es"
| "read_paths (_ # es) = read_paths es"

fun written_files :: "event list \<Rightarrow> (string \<times> string) list" where
  "written_files [] = []"
| "written_files (WriteFile p c # es) = (p, c) # written_files es"
| "written_files (_ # es) = written_files es"

section \<open>Concrete collaborators and agents\<close>

text \<open>
  Stand-ins for the collaborators, for evaluating the Agent on concrete runs. The
  repository under repair has a file \<open>app/models.py\<close> with the content \<open>x = 1\<close>, a file
  \<open>app/big.py\<close> of 40,000 characters and an empty file \<open>app/empty.py\<close>. The
  reproduction script fails with a \<open>TypeError\<close> until \<open>x = 2\<close> has been written to
  \<open>app/models.py\<close>. The LLM answers a fix request (the one call with \<open>max_tokens\<close>) with
  \<open>x = 2\<close> and any other request with \<open>import app\<close>.
\<close>

fun tokens :: "string \<Rightarrow> string list" where
  "tokens [] = [[]]"
| "tokens (c # cs) =
     (if c = CHR '' '' then [] # tokens cs
      else (case tokens cs of
              [] \<Rightarrow> [[c]]
            | t # ts \<Rightarrow> (c # t) # ts))"

text \<open>
  A stand-in for \<open>extract_file_paths\<close> with the behaviour the spec describes: the
  path-like tokens of the text (here the blank-separated tokens that end in \<open>.py\<close>), in
  the order of their first occurrence, duplicates removed.
\<close>

definition stub_extract_file_paths :: "string \<Rightarrow> string list" where
  "stub_extract_file_paths text =
     rev (remdups (rev (filter (\<lambda>t. 3 < length t \<and> starts_with (rev t) (rev ''.py''))
                               (tokens text))))"

definition demo_env :: collab where
  "demo_env =
     \<lparr>sandbox_start = (\<lambda>h. None),
      sandbox_run_command = (\<lambda>h cmd timeout.
         if timeout = None then Inr (0, ''/testbed/app/models.py'')
         else if (''app/models.py'', ''x = 2'') \<in> set (written_files h) then Inr (0, ''ok'')
         else Inr (1, ''TypeError: boom'')),
      sandbox_read_file = (\<lambda>h path.
         if path = ''app/models.py'' then Inr (Some ''x = 1'')
         else if path = ''app/big.py'' then Inr (Some (replicate 40000 CHR ''#''))
         else if path = ''app/empty.py'' then Inr (Some [])
         else Inr None),
      sandbox_write_file = (\<lambda>h path content. None),
      llm_get_completion = (\<lambda>h system_prompt user_prompt temperature max_tokens.
         if max_tokens = Some 8192 then Inr ''x = 2'' else Inr ''import app''),
      build_reproduce_prompt = (\<lambda>issue_desc hints. issue_desc),
      build_fix_prompt = (\<lambda>issue_text file_content path error_trace. path),
      build_locate_files_prompt = Inr (\<lambda>issue_text repo_structure. issue_text),
      extract_python_code = (\<lambda>response. response),
      extract_file_paths = stub_extract_file_paths,
      validate_python_code = (\<lambda>code. (True, [])),
      extract_error_messages = (\<lambda>output. if str_contains output ''Error'' then [output] else [])\<rparr>"

text \<open>The LLM raises on the fix request.\<close>

definition failing_llm_env :: collab where
  "failing_llm_env = demo_env\<lparr>llm_get_completion :=
     (\<lambda>h system_prompt user_prompt temperature max_tokens.
        if max_tokens = Some 8192 then Inl (Raised ''llm unavailable'') else Inr ''import app'')\<rparr>"

text \<open>Every command exits with 0, and its output still names an error.\<close>

definition residual_env :: collab where
  "residual_env = demo_env\<lparr>sandbox_run_command :=
     (\<lambda>h cmd timeout. Inr (0, ''1 passed, 1 failed: ValueError: bad''))\<rparr>"

text \<open>
  The LLM answers with the file as it is, followed by a blank and a no-break space
  (U+00A0).
\<close>

definition echo_env :: collab where
  "echo_env = demo_env\<lparr>llm_get_completion :=
     (\<lambda>h system_prompt user_prompt temperature max_tokens. Inr (''x = 1 '' @ [CHR 0xA0]))\<rparr>"

definition demo_agent :: agent where
  "demo_agent = new_agent [''instance_id'' \<mapsto> ''demo-1'',
     ''problem_statement'' \<mapsto> ''TypeError on save, see app/big.py and app/models.py'']"

text \<open>An issue whose text names four files.\<close>

definition four_paths_agent :: agent where
  "four_paths_agent = new_agent [''instance_id'' \<mapsto> ''demo-2'',
     ''problem_statement'' \<mapsto> ''crash in app/a.py app/b.py app/c.py app/d.py'']"



text \<open>FeedbackLoops with one and with two recorded attempts, and four calls of
  \<open>add_attempt\<close> for one file.\<close>

definition one_attempt_loop :: feedback_loop where
  "one_attempt_loop =
     add_attempt (FeedbackLoop_init default_max_attempts) 1 ''app/models.py'' ''x = 2''
       ''TypeError: unsupported operand'' False 0"

definition two_attempt_loop :: feedback_loop where
  "two_attempt_loop =
     add_attempt one_attempt_loop 2 ''app/models.py'' ''x = 3''
       ''TypeError: unsupported operand'' False 1"

definition four_adds :: "fl_call list" where
  "four_adds =
     [AddAttempt 1 ''app/models.py'' ''x = 2'' ''TypeError: a'' False 0,
      AddAttempt 2 ''app/models.py'' ''x = 3'' ''TypeError: b'' False 1,
      AddAttempt 3 ''app/models.py'' ''x = 4'' ''TypeError: c'' False 2,
      AddAttempt 4 ''app/models.py'' ''x = 5'' ''TypeError: d'' False 3]"

section \<open>Properties of the Agent\<close>

lemmas call_defs = start_def cleanup_def run_command_def read_file_def write_file_def
  get_completion_def

lemmas phase_defs = run_def run_try_def reproduce_bug_def locate_files_def generate_fix_def
  fix_file_def verify_fix_def get_file_tree_def MAX_FILE_CHARS_def

lemmas strip_defs = Let_def strip_def is_space_def

lemmas demo_defs = demo_env_def demo_agent_def new_agent_def stub_extract_file_paths_def
  problem_statement_def

subsection \<open>What each phase adds to the log\<close>

lemma new_calls_append [simp]: "calls ag' = new @ calls ag \<Longrightarrow> new_calls ag ag' = new"
  by (simp add: new_calls_def)

lemma read_paths_append: "read_paths (xs @ ys) = read_paths xs @ read_paths ys"
  by (induction xs rule: read_paths.induct) auto

lemma written_files_append: "written_files (xs @ ys) = written_files xs @ written_files ys"
  by (induction xs rule: written_files.induct) auto

lemma start_calls:
  "start env ag = (r, ag') \<Longrightarrow> ag' = ag\<lparr>calls := Start # calls ag\<rparr>"
  by (auto simp: start_def split: option.splits)

lemma get_file_tree_calls:
  "get_file_tree env n ag = (r, ag') \<Longrightarrow>
     ag' = ag\<lparr>calls := RunCommand (find_command n) None # calls ag\<rparr>"
  by (auto simp: get_file_tree_def run_command_def split: sum.splits prod.splits if_splits)

lemma reproduce_bug_calls:
  assumes "reproduce_bug env ag = (r, ag')"
  shows "\<exists>new. calls ag' = new @ calls ag \<and> Cleanup \<notin> set new"
  using assms
  by (auto simp: reproduce_bug_def Let_def call_defs problem_statement_def
      dest!: get_file_tree_calls split: sum.splits prod.splits if_splits option.splits)

lemma locate_files_calls:
  assumes "locate_files env ag = (r, ag')"
  shows "\<exists>new. calls ag' = new @ calls ag \<and> Cleanup \<notin> set new"
  using assms
  by (auto simp: locate_files_def Let_def call_defs problem_statement_def
      dest!: get_file_tree_calls split: sum.splits prod.splits if_splits option.splits)

text \<open>What one pass of the loop body adds to the log, and what its result says.\<close>

lemma fix_file_cases:
  assumes "fix_file env p ag = (r, ag')"
  shows "\<exists>new. calls ag' = new @ calls ag \<and> issue ag' = issue ag \<and> read_paths new = [p] \<and>
           Cleanup \<notin> set new \<and> Start \<notin> set new \<and>
           (r = Inr True \<longrightarrow> written_files new \<noteq> []) \<and>
           (r = Inr False \<longrightarrow> written_files new = [])"
  using assms
  by (auto simp: fix_file_def Let_def call_defs problem_statement_def
      split: sum.splits prod.splits if_splits option.splits)


lemma generate_fix_loop_calls:
  assumes "generate_fix_loop env ps fa ag = (r, ag')"
  shows "\<exists>new. calls ag' = new @ calls ag \<and> issue ag' = issue ag \<and>
           Cleanup \<notin> set new \<and> Start \<notin> set new \<and>
           (\<forall>b. r = Inr b \<longrightarrow>
              rev (read_paths new) = ps \<and> b = (fa \<or> written_files new \<noteq> []))"
  using assms
proof (induction ps arbitrary: fa ag)
  case Nil
  then show ?case by auto
next
  case (Cons p ps)
  obtain r1 ag1 where f: "fix_file env p ag = (r1, ag1)"
    by (cases "fix_file env p ag")
  from fix_file_cases [OF f] obtain n1 where
    n1: "calls ag1 = n1 @ calls ag" "issue ag1 = issue ag" "read_paths n1 = [p]"
      "Cleanup \<notin> set n1" "Start \<notin> set n1"
      "r1 = Inr True \<longrightarrow> written_files n1 \<noteq> []"
      "r1 = Inr False \<longrightarrow> written_files n1 = []"
    by blast
  show ?case
  proof (cases r1)
    case (Inl e)
    with Cons.prems f n1 show ?thesis by auto
  next
    case (Inr fixed)
    with Cons.prems f have rest: "generate_fix_loop env ps (fa \<or> fixed) ag1 = (r, ag')"
      by simp
    from Cons.IH [OF rest] obtain n2 where
      n2: "calls ag' = n2 @ calls ag1" "issue ag' = issue ag1"
        "Cleanup \<notin> set n2" "Start \<notin> set n2"
        "\<forall>b. r = Inr b \<longrightarrow>
           rev (read_paths n2) = ps \<and> b = ((fa \<or> fixed) \<or> written_files n2 \<noteq> [])"
      by blast
    have "calls ag' = (n2 @ n1) @ calls ag"
      using n1 n2 by simp
    moreover have "Cleanup \<notin> set (n2 @ n1)" "Start \<notin> set (n2 @ n1)"
      using n1 n2 by auto
    moreover have "\<forall>b. r = Inr b \<longrightarrow>
        rev (read_paths (n2 @ n1)) = p # ps \<and> b = (fa \<or> written_files (n2 @ n1) \<noteq> [])"
      using n1 n2 Inr by (cases fixed) (auto simp: read_paths_append written_files_append)
    moreover have "issue ag' = issue ag"
      using n1 n2 by simp
    ultimately show ?thesis by blast
  qed
qed


lemma generate_fix_calls:
  assumes "generate_fix env ag = (r, ag')"
  shows "\<exists>new. calls ag' = new @ calls ag \<and> Cleanup \<notin> set new"
  using assms generate_fix_loop_calls [of env "target_files ag" False ag r ag']
  by (auto simp: generate_fix_def)

lemma verify_fix_calls:
  assumes "verify_fix env ag = (r, ag')"
  shows "\<exists>new. calls ag' = new @ calls ag \<and> Cleanup \<notin> set new"
  using assms
  by (auto simp: verify_fix_def call_defs split: sum.splits prod.splits if_splits)

text \<open>The \<open>try\<close> block starts the sandbox first and never calls \<open>cleanup\<close> itself.\<close>

lemma run_try_calls:
  assumes "run_try env ag = (r, ag')"
  shows "\<exists>mid. calls ag' = mid @ Start # calls ag \<and> Cleanup \<notin> set mid"
proof -
  obtain r0 ag0 where s: "start env ag = (r0, ag0)"
    by (cases "start env ag")
  then have c0: "calls ag0 = [] @ Start # calls ag"
    by (auto dest: start_calls)
  obtain r1 ag1 where p1: "reproduce_bug env ag0 = (r1, ag1)"
    by (cases "reproduce_bug env ag0")
  from reproduce_bug_calls [OF p1] c0 obtain m1 where
    c1: "calls ag1 = m1 @ Start # calls ag" "Cleanup \<notin> set m1"
    by auto
  obtain r2 ag2 where p2: "locate_files env ag1 = (r2, ag2)"
    by (cases "locate_files env ag1")
  from locate_files_calls [OF p2] c1 obtain m2 where
    c2: "calls ag2 = m2 @ Start # calls ag" "Cleanup \<notin> set m2"
    by (metis Un_iff append.assoc set_append)
  obtain r3 ag3 where p3: "generate_fix env ag2 = (r3, ag3)"
    by (cases "generate_fix env ag2")
  from generate_fix_calls [OF p3] c2 obtain m3 where
    c3: "calls ag3 = m3 @ Start # calls ag" "Cleanup \<notin> set m3"
    by (metis Un_iff append.assoc set_append)
  obtain r4 ag4 where p4: "verify_fix env ag3 = (r4, ag4)"
    by (cases "verify_fix env ag3")
  from verify_fix_calls [OF p4] c3 obtain m4 where
    c4: "calls ag4 = m4 @ Start # calls ag" "Cleanup \<notin> set m4"
    by (metis Un_iff append.assoc set_append)
  have "ag' = ag0 \<or> ag' = ag1 \<or> ag' = ag2 \<or> ag' = ag3 \<or> ag' = ag4"
    using assms s p1 p2 p3 p4
    by (auto simp: run_try_def split: sum.splits prod.splits if_splits)
  with c0 c1 c2 c3 c4 show ?thesis
    by (metis empty_iff empty_set)
qed

text \<open>A constructed Agent has the key that the first line of \<open>run\<close> reads.\<close>

lemma Agent_init_instance_id:
  "Agent_init issue_data = Inr ag \<Longrightarrow> issue ag ''instance_id'' \<noteq> None"
  by (auto simp: Agent_init_def new_agent_def split: option.splits)

subsection \<open>\<open>run\<close> returns a boolean and releases the sandbox\<close>

text \<open>
  Claim C1. For every Agent that its constructor can build (the issue has an
  \<open>instance_id\<close>) and whatever the collaborators do, \<open>run\<close> returns a boolean and raises
  nothing. An exception of the \<open>try\<close> block becomes \<open>False\<close>: so does an exception of
  \<open>Sandbox.start\<close> and of each of the phases Reproduce, Locate and Fix, and one of Verify
  after them; a result of the block is returned as it is. The log of the run begins with
  \<open>Sandbox.start\<close> and ends with \<open>Sandbox.cleanup\<close>, which is called exactly once, on
  every path: a \<open>True\<close> return, a \<open>False\<close> return, an exception.
\<close>

theorem run_returns_bool_and_cleans_up:
  assumes "issue ag ''instance_id'' \<noteq> None"
  shows "(\<exists>b. fst (run env ag) = Inr b) \<and>
         (\<forall>e. fst (run_try env ag) = Inl e \<longrightarrow> fst (run env ag) = Inr False) \<and>
         (\<forall>b. fst (run_try env ag) = Inr b \<longrightarrow> fst (run env ag) = Inr b) \<and>
         (\<forall>e. fst (start env ag) = Inl e \<longrightarrow> fst (run env ag) = Inr False) \<and>
         (\<forall>e ag1. start env ag = (Inr (), ag1) \<and> fst (reproduce_bug env ag1) = Inl e \<longrightarrow>
            fst (run env ag) = Inr False) \<and>
         (\<forall>e ag1 ag2. start env ag = (Inr (), ag1) \<and> reproduce_bug env ag1 = (Inr True, ag2) \<and>
            fst (locate_files env ag2) = Inl e \<longrightarrow> fst (run env ag) = Inr False) \<and>
         (\<forall>e ag1 ag2 ag3. start env ag = (Inr (), ag1) \<and> reproduce_bug env ag1 = (Inr True, ag2) \<and>
            locate_files env ag2 = (Inr True, ag3) \<and> fst (generate_fix env ag3) = Inl e \<longrightarrow>
            fst (run env ag) = Inr False) \<and>
         (\<forall>ag1 ag2 ag3 ag4. start env ag = (Inr (), ag1) \<and> reproduce_bug env ag1 = (Inr True, ag2) \<and>
            locate_files env ag2 = (Inr True, ag3) \<and> generate_fix env ag3 = (Inr True, ag4) \<longrightarrow>
            fst (run env ag) = (case fst (verify_fix env ag4) of
                                  Inl e \<Rightarrow> Inr False
                                | Inr b \<Rightarrow> Inr b)) \<and>
         (\<exists>mid. calls (snd (run env ag)) = Cleanup # mid @ Start # calls ag \<and>
                Cleanup \<notin> set mid)"
proof -
  obtain r ag1 where t: "run_try env ag = (r, ag1)"
    by (cases "run_try env ag")
  from run_try_calls [OF t] obtain mid where
    m: "calls ag1 = mid @ Start # calls ag" "Cleanup \<notin> set mid"
    by blast
  from assms t have f: "fst (run env ag) = Inr (case r of Inl e \<Rightarrow> False | Inr b \<Rightarrow> b)"
    and s: "snd (run env ag) = cleanup env ag1"
    by (auto simp: run_def split: sum.splits)
  have a: "\<exists>b. fst (run env ag) = Inr b"
    using f by simp
  have b: "\<forall>e. fst (run_try env ag) = Inl e \<longrightarrow> fst (run env ag) = Inr False"
    using f t by simp
  have c: "\<forall>b. fst (run_try env ag) = Inr b \<longrightarrow> fst (run env ag) = Inr b"
    using f t by simp
  have p0: "\<forall>e. fst (start env ag) = Inl e \<longrightarrow> fst (run env ag) = Inr False"
    using b by (auto simp: run_try_def split: prod.splits sum.splits)
  have p1: "\<forall>e ag1. start env ag = (Inr (), ag1) \<and> fst (reproduce_bug env ag1) = Inl e \<longrightarrow>
            fst (run env ag) = Inr False"
    using b by (auto simp: run_try_def split: prod.splits sum.splits)
  have p2: "\<forall>e ag1 ag2. start env ag = (Inr (), ag1) \<and> reproduce_bug env ag1 = (Inr True, ag2) \<and>
            fst (locate_files env ag2) = Inl e \<longrightarrow> fst (run env ag) = Inr False"
    using b by (auto simp: run_try_def split: prod.splits sum.splits)
  have p3: "\<forall>e ag1 ag2 ag3. start env ag = (Inr (), ag1) \<and> reproduce_bug env ag1 = (Inr True, ag2) \<and>
            locate_files env ag2 = (Inr True, ag3) \<and> fst (generate_fix env ag3) = Inl e \<longrightarrow>
            fst (run env ag) = Inr False"
    using b by (auto simp: run_try_def split: prod.splits sum.splits)
  have p4: "\<forall>ag1 ag2 ag3 ag4. start env ag = (Inr (), ag1) \<and> reproduce_bug env ag1 = (Inr True, ag2) \<and>
            locate_files env ag2 = (Inr True, ag3) \<and> generate_fix env ag3 = (Inr True, ag4) \<longrightarrow>
            fst (run env ag) = (case fst (verify_fix env ag4) of
                                  Inl e \<Rightarrow> Inr False
                                | Inr b \<Rightarrow> Inr b)"
    using b c by (auto simp: run_try_def split: prod.splits sum.splits)
  have d: "\<exists>mid. calls (snd (run env ag)) = Cleanup # mid @ Start # calls ag \<and> Cleanup \<notin> set mid"
    using m s by (auto simp: cleanup_def)
  from a b c p0 p1 p2 p3 p4 d show ?thesis
    by (intro conjI)
qed

text \<open>
  Three runs on the same issue: one where the fix is verified (\<open>True\<close>), one where the
  verification still sees an error (\<open>False\<close>), and one where the LLM raises during the
  Fix phase (\<open>False\<close>). The last call of each is \<open>cleanup\<close>.
\<close>

lemma strip_demo: "strip ''x = 2'' \<noteq> strip ''x = 1''"
  by (simp add: strip_def is_space_def)

theorem run_returns_bool_and_cleans_up_witness:
  "issue demo_agent ''instance_id'' \<noteq> None \<and>
   fst (run demo_env demo_agent) = Inr True \<and>
   hd (calls (snd (run demo_env demo_agent))) = Cleanup \<and>
   fst (run residual_env demo_agent) = Inr False \<and>
   hd (calls (snd (run residual_env demo_agent))) = Cleanup \<and>
   fst (run_try failing_llm_env demo_agent) = Inl (Raised ''llm unavailable'') \<and>
   fst (run failing_llm_env demo_agent) = Inr False \<and>
   hd (calls (snd (run failing_llm_env demo_agent))) = Cleanup"
proof -
  have h: "issue demo_agent ''instance_id'' \<noteq> None"
    by (simp add: demo_defs)
  note th = run_returns_bool_and_cleans_up [OF h]
  have v1: "fst (run demo_env demo_agent) = Inr True"
    by (simp add: phase_defs call_defs demo_defs Let_def strip_demo)
  have v2: "fst (run residual_env demo_agent) = Inr False"
    by (simp add: phase_defs call_defs demo_defs residual_env_def Let_def strip_demo)
  have e3: "fst (run_try failing_llm_env demo_agent) = Inl (Raised ''llm unavailable'')"
    by (simp add: phase_defs call_defs demo_defs failing_llm_env_def)
  have v3: "fst (run failing_llm_env demo_agent) = Inr False"
    using th [of failing_llm_env, THEN conjunct2, THEN conjunct1, rule_format, OF e3] .
  have "\<exists>mid. calls (snd (run env demo_agent)) = Cleanup # mid @ Start # calls demo_agent \<and>
          Cleanup \<notin> set mid" for env
    using th [of env] by (elim conjE)
  then have c: "hd (calls (snd (run env demo_agent))) = Cleanup" for env
    by (metis list.sel(1))
  from h v1 v2 e3 v3 c show ?thesis
    by simp
qed

subsection \<open>Reproduce and Verify\<close>

text \<open>
  Claim C2. When \<open>_reproduce_bug\<close> got as far as running the script (its last call is
  \<open>python reproduce_issue.py\<close> with the timeout of 30, which it only makes after the
  generated code passed validation and was written) and the sandbox answered with an exit
  code and an output, the result is \<open>True\<close> if and only if the exit code is not zero or
  \<open>extract_error_messages\<close> finds something in the output.
\<close>

theorem reproduce_bug_result:
  assumes "reproduce_bug env ag = (res, ag')"
    and "calls ag' = RunCommand (''python '' @ repro_script ag) (Some 30) # history"
    and "sandbox_run_command env history (''python '' @ repro_script ag) (Some 30)
           = Inr (exit_code, output)"
  shows "res = Inr (exit_code \<noteq> 0 \<or> extract_error_messages env output \<noteq> [])"
  using assms
  by (auto simp: reproduce_bug_def Let_def call_defs problem_statement_def
      dest!: get_file_tree_calls split: sum.splits prod.splits if_splits option.splits)

theorem reproduce_bug_result_witness:
  "calls (snd (reproduce_bug demo_env demo_agent)) =
     RunCommand (''python '' @ repro_script demo_agent) (Some 30) #
       [WriteFile ''reproduce_issue.py'' ''import app'',
        GetCompletion SYSTEM_PROMPT ''TypeError on save, see app/big.py and app/models.py'' 3 None,
        RunCommand (find_command 100) None] \<and>
   sandbox_run_command demo_env
       [WriteFile ''reproduce_issue.py'' ''import app'',
        GetCompletion SYSTEM_PROMPT ''TypeError on save, see app/big.py and app/models.py'' 3 None,
        RunCommand (find_command 100) None]
       (''python '' @ repro_script demo_agent) (Some 30) = Inr (1, ''TypeError: boom'') \<and>
   fst (reproduce_bug demo_env demo_agent) = Inr True"
proof -
  have c: "calls (snd (reproduce_bug demo_env demo_agent)) =
     RunCommand (''python '' @ repro_script demo_agent) (Some 30) #
       [WriteFile ''reproduce_issue.py'' ''import app'',
        GetCompletion SYSTEM_PROMPT ''TypeError on save, see app/big.py and app/models.py'' 3 None,
        RunCommand (find_command 100) None]"
    by (simp add: phase_defs call_defs demo_defs)
  have o: "sandbox_run_command demo_env
       [WriteFile ''reproduce_issue.py'' ''import app'',
        GetCompletion SYSTEM_PROMPT ''TypeError on save, see app/big.py and app/models.py'' 3 None,
        RunCommand (find_command 100) None]
       (''python '' @ repro_script demo_agent) (Some 30) = Inr (1, ''TypeError: boom'')"
    by (simp add: demo_defs)
  have "fst (reproduce_bug demo_env demo_agent) =
          Inr ((1::int) \<noteq> 0 \<or> extract_error_messages demo_env ''TypeError: boom'' \<noteq> [])"
    using reproduce_bug_result [OF prod.collapse [symmetric] c o] .
  with c o show ?thesis by simp
qed



subsection \<open>Locate\<close>

text \<open>The two ways in which \<open>_locate_files\<close> fills \<open>target_files\<close>.\<close>

lemma locate_files_heuristic:
  assumes "issue ag ''problem_statement'' = Some issue_text"
    and "extract_file_paths env issue_text \<noteq> []"
  shows "locate_files env ag =
           (Inr True, ag\<lparr>target_files := extract_file_paths env issue_text\<rparr>)"
  using assms by (simp add: locate_files_def problem_statement_def)

lemma locate_files_fallback_cap:
  assumes "issue ag ''problem_statement'' = Some issue_text"
    and "extract_file_paths env issue_text = []"
    and "locate_files env ag = (Inr True, ag')"
  shows "length (target_files ag') \<le> 3"
  using assms
  by (auto simp: locate_files_def Let_def call_defs problem_statement_def
      dest!: get_file_tree_calls split: sum.splits prod.splits if_splits option.splits)

text \<open>
  Claim C4 says that a successful Locate phase leaves at most 3 target files on both
  paths. The LLM fallback truncates to 3 (\<open>locate_files_fallback_cap\<close>); the issue-text
  heuristic stores whatever \<open>extract_file_paths\<close> returns
  (\<open>locate_files_heuristic\<close>). For an issue whose text names four files the phase
  succeeds with four target files.
\<close>

theorem locate_files_four_paths:
  "fst (locate_files demo_env four_paths_agent) = Inr True \<and>
   target_files (snd (locate_files demo_env four_paths_agent))
     = [''app/a.py'', ''app/b.py'', ''app/c.py'', ''app/d.py''] \<and>
   \<not> length (target_files (snd (locate_files demo_env four_paths_agent))) \<le> 3"
  by (simp add: locate_files_def demo_defs four_paths_agent_def)

subsection \<open>Fix\<close>

text \<open>
  Claim C5. Whatever one pass of the loop of \<open>_generate_fix\<close> writes for a target file
  is the code extracted from the LLM's answer for that file, and that code is not empty,
  passes \<open>validate_python_code\<close> and differs, after \<open>strip\<close>, from the content read for
  the file. When the extracted code equals the content read after \<open>strip\<close>, the pass
  ends in a skip and writes nothing.
\<close>

theorem fix_file_write_conditions:
  assumes "fix_file env filepath ag = (r, ag')"
  shows "(\<forall>path content. (path, content) \<in> set (written_files (new_calls ag ag')) \<longrightarrow>
            path = filepath \<and> content \<noteq> [] \<and> fst (validate_python_code env content) \<and>
            (\<exists>original issue_text response.
               sandbox_read_file env (calls ag) filepath = Inr (Some original) \<and>
               issue ag ''problem_statement'' = Some issue_text \<and>
               llm_get_completion env (ReadFile filepath # calls ag) SYSTEM_PROMPT
                 (build_fix_prompt env issue_text original filepath (repro_output ag))
                 2 (Some 8192) = Inr response \<and>
               content = extract_python_code env response \<and>
               strip content \<noteq> strip original)) \<and>
         (\<forall>original issue_text response.
            sandbox_read_file env (calls ag) filepath = Inr (Some original) \<and>
            issue ag ''problem_statement'' = Some issue_text \<and>
            llm_get_completion env (ReadFile filepath # calls ag) SYSTEM_PROMPT
              (build_fix_prompt env issue_text original filepath (repro_output ag))
              2 (Some 8192) = Inr response \<and>
            strip (extract_python_code env response) = strip original \<longrightarrow>
            r = Inr False \<and> written_files (new_calls ag ag') = [])"
  using assms
  by (auto simp: fix_file_def Let_def call_defs problem_statement_def new_calls_def
      split: sum.splits prod.splits if_splits option.splits)

text \<open>
  \<open>x = 2\<close> is written over \<open>x = 1\<close>; the answer \<open>x = 1\<close> followed by a blank and a
  no-break space is skipped.
\<close>

theorem fix_file_write_conditions_witness:
  "(''app/models.py'', ''x = 2'')
     \<in> set (written_files (new_calls demo_agent (snd (fix_file demo_env ''app/models.py'' demo_agent)))) \<and>
   (''app/models.py'' = ''app/models.py'' \<and> ''x = 2'' \<noteq> [] \<and>
    fst (validate_python_code demo_env ''x = 2'') \<and>
    (\<exists>original issue_text response.
       sandbox_read_file demo_env (calls demo_agent) ''app/models.py'' = Inr (Some original) \<and>
       issue demo_agent ''problem_statement'' = Some issue_text \<and>
       llm_get_completion demo_env (ReadFile ''app/models.py'' # calls demo_agent) SYSTEM_PROMPT
         (build_fix_prompt demo_env issue_text original ''app/models.py'' (repro_output demo_agent))
         2 (Some 8192) = Inr response \<and>
       ''x = 2'' = extract_python_code demo_env response \<and>
       strip ''x = 2'' \<noteq> strip original)) \<and>
   sandbox_read_file echo_env (calls demo_agent) ''app/models.py'' = Inr (Some ''x = 1'') \<and>
   strip (extract_python_code echo_env (''x = 1 '' @ [CHR 0xA0])) = strip ''x = 1'' \<and>
   fst (fix_file echo_env ''app/models.py'' demo_agent) = Inr False \<and>
   written_files (new_calls demo_agent (snd (fix_file echo_env ''app/models.py'' demo_agent))) = []"
proof -
  have w: "(''app/models.py'', ''x = 2'')
     \<in> set (written_files (new_calls demo_agent (snd (fix_file demo_env ''app/models.py'' demo_agent))))"
    by (simp add: fix_file_def MAX_FILE_CHARS_def call_defs demo_defs new_calls_def strip_defs)
  have r: "sandbox_read_file echo_env (calls demo_agent) ''app/models.py'' = Inr (Some ''x = 1'')"
    by (simp add: demo_env_def echo_env_def)
  have i: "issue demo_agent ''problem_statement''
             = Some ''TypeError on save, see app/big.py and app/models.py''"
    by (simp add: demo_defs)
  have l: "llm_get_completion echo_env (ReadFile ''app/models.py'' # calls demo_agent) SYSTEM_PROMPT
             (build_fix_prompt echo_env ''TypeError on save, see app/big.py and app/models.py''
                ''x = 1'' ''app/models.py'' (repro_output demo_agent)) 2 (Some 8192) = Inr (''x = 1 '' @ [CHR 0xA0])"
    by (simp add: echo_env_def)
  have s: "strip (extract_python_code echo_env (''x = 1 '' @ [CHR 0xA0])) = strip ''x = 1''"
    by (simp add: echo_env_def demo_env_def strip_def is_space_def)
  note a = fix_file_write_conditions [where env = demo_env and filepath = "''app/models.py''"
      and ag = demo_agent, OF prod.collapse [symmetric], THEN conjunct1, rule_format, OF w]
  note b = fix_file_write_conditions [where env = echo_env and filepath = "''app/models.py''"
      and ag = demo_agent, OF prod.collapse [symmetric], THEN conjunct2, rule_format,
      OF conjI [OF r conjI [OF i conjI [OF l s]]]]
  show ?thesis
    apply (rule conjI [OF w])
    apply (rule conjI [OF a])
    apply (rule conjI [OF r])
    apply (rule conjI [OF s])
    apply (rule b)
    done
qed



text \<open>
  Claim C10. A target file whose content comes back as the empty string is handled as
  one that cannot be read (\<open>None\<close>): the pass over it is a skip whose only call is the
  read, so the LLM is not asked and nothing is written.
\<close>

theorem fix_file_empty_content:
  assumes "sandbox_read_file env (calls ag) filepath = Inr content"
    and "content = None \<or> content = Some []"
  shows "fix_file env filepath ag = (Inr False, ag\<lparr>calls := ReadFile filepath # calls ag\<rparr>)"
  using assms by (auto simp: fix_file_def read_file_def)

theorem fix_file_empty_content_witness:
  "sandbox_read_file demo_env (calls demo_agent) ''app/empty.py'' = Inr (Some []) \<and>
   fix_file demo_env ''app/empty.py'' demo_agent =
     (Inr False, demo_agent\<lparr>calls := ReadFile ''app/empty.py'' # calls demo_agent\<rparr>) \<and>
   sandbox_read_file demo_env (calls demo_agent) ''app/missing.py'' = Inr None \<and>
   fix_file demo_env ''app/missing.py'' demo_agent =
     (Inr False, demo_agent\<lparr>calls := ReadFile ''app/missing.py'' # calls demo_agent\<rparr>)"
proof -
  have r1: "sandbox_read_file demo_env (calls demo_agent) ''app/empty.py'' = Inr (Some [])"
    by (simp add: demo_env_def)
  have r2: "sandbox_read_file demo_env (calls demo_agent) ''app/missing.py'' = Inr None"
    by (simp add: demo_env_def)
  from fix_file_empty_content [OF r1] fix_file_empty_content [OF r2] r1 r2 show ?thesis
    by simp
qed

section \<open>Properties of the FeedbackLoop\<close>

subsection \<open>\<open>analyze_errors\<close>\<close>

text \<open>
  \<open>analyze_errors\<close> calls \<open>_generate_suggestions\<close> only with an error type, and sets the
  error message wherever it sets the type, so neither \<open>TypeError\<close> of
  \<open>_generate_suggestions\<close> can arise: the method always returns an analysis.
\<close>

lemma kind_suggestions_returns:
  "error_message a \<noteq> None \<Longrightarrow> \<exists>sugg. kind_suggestions a = Inr sugg"
  by (auto simp: kind_suggestions_def)

lemma generate_suggestions_returns:
  assumes "error_type a \<noteq> None" and "error_message a \<noteq> None"
  shows "\<exists>sugg. generate_suggestions fl a = Inr sugg"
proof -
  from kind_suggestions_returns [OF assms(2)] obtain sugg where "kind_suggestions a = Inr sugg"
    by blast
  with assms(1) show ?thesis
    by (auto simp: generate_suggestions_def Let_def)
qed

lemma analyze_errors_returns: "\<exists>a. analyze_errors fl err = Inr a"
proof -
  let ?a0 = "\<lparr>error_type = None, error_message = None, failed_line = None, suggestions = []\<rparr>"
  define a1 where "a1 = (case first_error err of
      None \<Rightarrow> ?a0
    | Some (t, msg) \<Rightarrow> ?a0\<lparr>error_type := Some t, error_message := Some msg\<rparr>)"
  define a2 where "a2 = (case re_search match_line err of
      None \<Rightarrow> a1
    | Some ds \<Rightarrow> a1\<lparr>failed_line := Some (int_of_digits ds)\<rparr>)"
  have m1: "error_type a1 \<noteq> None \<Longrightarrow> error_message a1 \<noteq> None"
    by (auto simp: a1_def split: option.splits)
  have m2: "error_type a2 \<noteq> None \<Longrightarrow> error_message a2 \<noteq> None"
    using m1 by (auto simp: a2_def split: option.splits)
  have e: "analyze_errors fl err =
      (if error_type a2 \<noteq> None \<and> error_type a2 \<noteq> Some []
       then (case generate_suggestions fl a2 of
               Inl e \<Rightarrow> Inl e
             | Inr sugg \<Rightarrow> Inr (a2\<lparr>suggestions := sugg\<rparr>))
       else Inr a2)"
    unfolding analyze_errors_def Let_def a1_def a2_def by (rule refl)
  show ?thesis
  proof (cases "error_type a2 \<noteq> None \<and> error_type a2 \<noteq> Some []")
    case True
    with m2 generate_suggestions_returns [of a2 fl] obtain sugg where
      "generate_suggestions fl a2 = Inr sugg" by blast
    with True e show ?thesis by auto
  next
    case False
    with e show ?thesis by auto
  qed
qed


text \<open>
  Claim C9. Two calls of \<open>analyze_errors\<close> in succession on the same transcript return
  the same analysis (error type, message, failed line and suggestions), and the
  FeedbackLoop, its attempt history included, is after each call what it was before.
\<close>

theorem analyze_errors_pure:
  assumes "method_call (AnalyzeErrors err) fl = (r1, fl1)"
    and "method_call (AnalyzeErrors err) fl1 = (r2, fl2)"
  shows "r2 = r1 \<and> fl1 = fl \<and> fl2 = fl \<and> (\<exists>a. r1 = AnalysisResult (Inr a))"
  using assms analyze_errors_returns [of fl err] by auto

theorem analyze_errors_pure_witness:
  "method_call (AnalyzeErrors ''NameError: x is not defined'') one_attempt_loop
     = (AnalysisResult (Inr \<lparr>error_type = Some ''NameError'',
          error_message = Some ''x is not defined'', failed_line = None,
          suggestions = [''Check for undefined variables or missing imports'']\<rparr>),
        one_attempt_loop) \<and>
   fst (method_call (AnalyzeErrors ''NameError: x is not defined'')
          (snd (method_call (AnalyzeErrors ''NameError: x is not defined'') one_attempt_loop)))
     = fst (method_call (AnalyzeErrors ''NameError: x is not defined'') one_attempt_loop)"
proof -
  have e: "analyze_errors one_attempt_loop ''NameError: x is not defined''
     = Inr \<lparr>error_type = Some ''NameError'',
          error_message = Some ''x is not defined'', failed_line = None,
          suggestions = [''Check for undefined variables or missing imports'']\<rparr>"
    by code_simp
  from analyze_errors_pure [OF prod.collapse [symmetric] prod.collapse [symmetric],
      of "''NameError: x is not defined''" one_attempt_loop] e
  show ?thesis by simp
qed


subsection \<open>The repeated-error suggestion\<close>

text \<open>
  \<open>_generate_suggestions\<close> compares the error type with the transcript of the last
  recorded attempt only when more than one attempt is recorded.
\<close>

lemma generate_suggestions_repeat:
  assumes "1 < length (attempts_history fl)"
    and "error_type a = Some t"
    and "str_contains (error_output (last (attempts_history fl))) t"
    and "generate_suggestions fl a = Inr s"
  shows "s \<noteq> [] \<and> last s = same_error_suggestion"
  using assms
  by (cases "kind_suggestions a") (auto simp: generate_suggestions_def Let_def)

lemma generate_suggestions_single:
  assumes "length (attempts_history fl) \<le> 1"
  shows "generate_suggestions fl a = kind_suggestions a"
  using assms
  by (cases "kind_suggestions a") (simp_all add: generate_suggestions_def)

lemma same_error_flagged_two_attempts:
  "analyze_errors two_attempt_loop ''TypeError: unsupported operand''
     = Inr \<lparr>error_type = Some ''TypeError'', error_message = Some ''unsupported operand'',
            failed_line = None,
            suggestions = [''Check function arguments and type compatibility'',
                           same_error_suggestion]\<rparr>"
  by code_simp


text \<open>
  Claim C7 asks for the suggestion whenever the error kind of the current transcript
  appears in the transcript of the attempt recorded just before. With exactly one
  recorded attempt, whose transcript names \<open>TypeError\<close>, the analysis of a second
  \<open>TypeError\<close> transcript finds the kind and does not include the suggestion: the guard
  \<open>len(self.attempts_history) > 1\<close> skips the comparison with \<open>attempts_history[-1]\<close>.
\<close>

theorem same_error_not_flagged_after_one_attempt:
  "attempts_history one_attempt_loop \<noteq> [] \<and>
   str_contains (error_output (last (attempts_history one_attempt_loop))) ''TypeError'' \<and>
   analyze_errors one_attempt_loop ''TypeError: unsupported operand''
     = Inr \<lparr>error_type = Some ''TypeError'', error_message = Some ''unsupported operand'',
            failed_line = None,
            suggestions = [''Check function arguments and type compatibility'']\<rparr>"
  by code_simp


subsection \<open>The attempt history\<close>

text \<open>Only \<open>add_attempt\<close> changes the object, and it appends one record.\<close>

lemma method_call_records:
  "records_for path (snd (method_call c fl)) = records_for path fl + adds_for path [c]"
  by (cases c) (auto simp: records_for_def add_attempt_def)

lemma method_call_max_attempts:
  "max_attempts (snd (method_call c fl)) = max_attempts fl"
  by (cases c) (auto simp: add_attempt_def)

lemma adds_for_Cons: "adds_for path (c # cs) = adds_for path [c] + adds_for path cs"
  by (cases c) auto

lemma method_calls_records:
  "records_for path (method_calls cs fl) = records_for path fl + adds_for path cs"
proof (induction cs arbitrary: fl)
  case Nil
  show ?case by simp
next
  case (Cons c cs)
  have "records_for path (method_calls (c # cs) fl)
          = records_for path (snd (method_call c fl)) + adds_for path cs"
    using Cons.IH by simp
  also have "\<dots> = records_for path fl + adds_for path [c] + adds_for path cs"
    by (simp only: method_call_records)
  also have "\<dots> = records_for path fl + adds_for path (c # cs)"
    using adds_for_Cons [of path c cs] by simp
  finally show ?case .
qed

lemma method_calls_max_attempts:
  "max_attempts (method_calls cs fl) = max_attempts fl"
  by (induction cs arbitrary: fl) (simp_all add: method_call_max_attempts)


text \<open>
  Claim C8 bounds the records of a file by \<open>max_attempts\<close> for every sequence of
  operations. \<open>add_attempt\<close> has no such check: four calls for one file on a
  FeedbackLoop with the default ceiling of 3 leave four records.
\<close>

theorem records_exceed_max_attempts:
  "\<not> int (records_for ''app/models.py''
            (method_calls four_adds (FeedbackLoop_init default_max_attempts)))
       \<le> max_attempts (method_calls four_adds (FeedbackLoop_init default_max_attempts))"
  by (simp add: four_adds_def default_max_attempts_def FeedbackLoop_init_def records_for_def
      add_attempt_def)


text \<open>
  Claim C8 as amended. After any sequence of operations on a new FeedbackLoop, the
  number of records for a file path is the number of \<open>add_attempt\<close> calls made for that
  path; so it is within \<open>max_attempts\<close> exactly when the caller made at most
  \<open>max_attempts\<close> such calls. \<open>max_attempts\<close> stays as constructed, and
  \<open>should_retry(k)\<close> is true exactly when \<open>k < max_attempts\<close>.
\<close>

theorem records_equal_add_attempt_calls:
  "records_for path (method_calls cs (FeedbackLoop_init n)) = adds_for path cs \<and>
   (int (records_for path (method_calls cs (FeedbackLoop_init n)))
        \<le> max_attempts (method_calls cs (FeedbackLoop_init n))
      \<longleftrightarrow> int (adds_for path cs) \<le> n) \<and>
   (should_retry (method_calls cs (FeedbackLoop_init n)) k \<longleftrightarrow> k < n)"
proof -
  have r0: "records_for path (FeedbackLoop_init n) = 0"
    by (simp add: records_for_def FeedbackLoop_init_def)
  have a: "records_for path (method_calls cs (FeedbackLoop_init n)) = adds_for path cs"
    using method_calls_records [of path cs "FeedbackLoop_init n"] r0 by simp
  have m: "max_attempts (method_calls cs (FeedbackLoop_init n)) = n"
    by (simp add: method_calls_max_attempts FeedbackLoop_init_def)
  show ?thesis
    by (simp add: a m should_retry_def)
qed

theorem records_equal_add_attempt_calls_witness:
  "records_for ''app/models.py'' (method_calls (ShouldRetry 3 # take 3 four_adds)
       (FeedbackLoop_init default_max_attempts)) = 3 \<and>
   int (records_for ''app/models.py'' (method_calls (ShouldRetry 3 # take 3 four_adds)
       (FeedbackLoop_init default_max_attempts)))
     \<le> max_attempts (method_calls (ShouldRetry 3 # take 3 four_adds)
           (FeedbackLoop_init default_max_attempts)) \<and>
   should_retry (method_calls (ShouldRetry 3 # take 3 four_adds)
       (FeedbackLoop_init default_max_attempts)) 2 \<and>
   \<not> should_retry (method_calls (ShouldRetry 3 # take 3 four_adds)
       (FeedbackLoop_init default_max_attempts)) 3"
  using records_equal_add_attempt_calls [of "''app/models.py''" "ShouldRetry 3 # take 3 four_adds"
      default_max_attempts 2]
    records_equal_add_attempt_calls [of "''app/models.py''" "ShouldRetry 3 # take 3 four_adds"
      default_max_attempts 3]
  by (simp add: four_adds_def default_max_attempts_def)

end
